theory Spec2Isabelle
  imports Main "HOL-Library.AList"
begin

section \<open>JavaScript values as the client sees them\<close>

text \<open>
  The client (\<^verbatim>\<open>frontend/src/App.jsx\<close>, \<^verbatim>\<open>components/Settings.jsx\<close>,
  \<^verbatim>\<open>components/CsvUpload.jsx\<close>) works on values that \<^verbatim>\<open>JSON.parse\<close> returns and on
  what property reads of them yield. An object is its list of own properties. A number is
  kept as the text that \<^verbatim>\<open>Number.prototype.toString\<close> gives it (\<^verbatim>\<open>120\<close>, \<^verbatim>\<open>0.5\<close>,
  \<^verbatim>\<open>1e+21\<close>), which names it up to the sign of zero; the handlers only test a number for
  truth and print it.
\<close>

datatype json =
    JUndefined
  | JNull
  | JBool bool
  | JNum string
  | JStr string
  | JArr "json list"
  | JObj "(string \<times> json) list"

text \<open>
  ToBoolean, as \<^verbatim>\<open>if (x)\<close>, \<^verbatim>\<open>!x\<close> and \<^verbatim>\<open>x || y\<close> apply it. A parsed number is never
  NaN, so it is falsy exactly when it prints as \<^verbatim>\<open>0\<close>.
\<close>

fun truthy :: "json \<Rightarrow> bool" where
  "truthy JUndefined = False"
| "truthy JNull = False"
| "truthy (JBool b) = b"
| "truthy (JNum n) = (n \<noteq> ''0'')"
| "truthy (JStr s) = (s \<noteq> [])"
| "truthy (JArr xs) = True"
| "truthy (JObj ps) = True"

text \<open>\<^verbatim>\<open>a || b\<close>\<close>

definition js_or :: "json \<Rightarrow> json \<Rightarrow> json" where
  "js_or a b = (if truthy a then a else b)"

definition digit_char :: "nat \<Rightarrow> char" where
  "digit_char d = char_of (48 + d)"

function show_nat :: "nat \<Rightarrow> string" where
  "show_nat n = (if n < 10 then [digit_char n] else show_nat (n div 10) @ [digit_char (n mod 10)])"
  by pat_completeness auto
termination
  by (relation "measure id") auto

declare show_nat.simps [simp del]

fun join_with :: "string \<Rightarrow> string list \<Rightarrow> string" where
  "join_with sep [] = []"
| "join_with sep [x] = x"
| "join_with sep (x # y # ys) = x @ sep @ join_with sep (y # ys)"

text \<open>
  ToString, as a template literal and \<^verbatim>\<open>new Error(x)\<close> apply it; \<open>None\<close> is the
  TypeError it throws. An array joins its elements with commas (\<^verbatim>\<open>null\<close> and
  \<^verbatim>\<open>undefined\<close> elements as the empty string). An object is \<^verbatim>\<open>[object Object]\<close>, unless
  it has an own property \<^verbatim>\<open>toString\<close>: a parsed value is never callable, the inherited
  \<^verbatim>\<open>valueOf\<close> returns the object itself, and the conversion to a primitive fails.
\<close>

fun to_string :: "json \<Rightarrow> string option" where
  "to_string JUndefined = Some ''undefined''"
| "to_string JNull = Some ''null''"
| "to_string (JBool b) = Some (if b then ''true'' else ''false'')"
| "to_string (JNum n) = Some n"
| "to_string (JStr s) = Some s"
| "to_string (JArr xs) =
     map_option (join_with '','')
       (those (map (\<lambda>x. if x = JUndefined \<or> x = JNull then Some [] else to_string x) xs))"
| "to_string (JObj ps) =
     (if ''toString'' \<in> set (map fst ps) then None else Some ''[object Object]'')"

text \<open>
  A property read \<^verbatim>\<open>d.p\<close> of a value that is not \<^verbatim>\<open>null\<close> or \<^verbatim>\<open>undefined\<close>, for the
  names the handlers read (\<^verbatim>\<open>error\<close>, \<^verbatim>\<open>status\<close>, \<^verbatim>\<open>partial\<close>, \<^verbatim>\<open>data\<close>, \<^verbatim>\<open>detail\<close>):
  none of them is on a prototype, so only an object's own property answers.
\<close>

fun own_prop :: "json \<Rightarrow> string \<Rightarrow> json" where
  "own_prop (JObj ps) p = (case map_of ps p of Some v \<Rightarrow> v | None \<Rightarrow> JUndefined)"
| "own_prop d p = JUndefined"

text \<open>Own enumerable properties, as the object spread \<^verbatim>\<open>{...x}\<close> copies them.\<close>

fun own_props :: "json \<Rightarrow> (string \<times> json) list" where
  "own_props (JObj ps) = ps"
| "own_props (JArr xs) = zip (map show_nat [0..<length xs]) xs"
| "own_props (JStr s) = zip (map show_nat [0..<length s]) (map (\<lambda>c. JStr [c]) s)"
| "own_props d = []"

section \<open>The environment of the client\<close>

record js_file =
  name :: string
  bytes :: string

datatype req_body = JsonBody json | FormData "(string \<times> js_file) list"

record request =
  url :: string
  http_method :: string
  headers :: "(string \<times> string) list"
  body :: req_body

text \<open>
  A response: \<^verbatim>\<open>response.ok\<close>, \<^verbatim>\<open>response.status\<close>, the decoded chunks that
  \<^verbatim>\<open>reader.read()\<close> delivers in order, and the message of the rejection that ends the
  body early, when there is one.
\<close>

record response =
  ok :: bool
  status :: nat
  chunks :: "string list"
  broken :: "string option"

text \<open>
  What the browser supplies: \<^verbatim>\<open>API_BASE\<close> (from \<^verbatim>\<open>import.meta.env\<close>), \<^verbatim>\<open>JSON.parse\<close>
  (\<open>Inl\<close> the message of the SyntaxError it throws), the message of the TypeError
  thrown by reading a property of \<^verbatim>\<open>null\<close>, the message of the TypeError thrown when
  an object has no primitive value, and \<^verbatim>\<open>fetch\<close> (\<open>Inl\<close> the message of its
  rejection). A thrown exception is its \<^verbatim>\<open>message\<close>: the handlers read nothing else
  of it.
\<close>

record env =
  api_base :: string
  json_parse :: "string \<Rightarrow> string + json"
  null_read_message :: "string \<Rightarrow> string"
  primitive_message :: string
  fetch :: "request \<Rightarrow> string + response"

text \<open>\<^verbatim>\<open>d.p\<close> where \<^verbatim>\<open>d\<close> may be \<^verbatim>\<open>null\<close>: the read throws a TypeError.\<close>

definition get_prop :: "env \<Rightarrow> json \<Rightarrow> string \<Rightarrow> string + json" where
  "get_prop h d p =
     (if d = JNull \<or> d = JUndefined then Inl (null_read_message h p) else Inr (own_prop d p))"

text \<open>
  The message of the exception that \<^verbatim>\<open>throw new Error(x)\<close> throws: the Error with the
  rendering of \<open>x\<close>, or the TypeError of a rendering that fails.
\<close>

definition thrown_message :: "env \<Rightarrow> json \<Rightarrow> string" where
  "thrown_message h x = (case to_string x of Some m \<Rightarrow> m | None \<Rightarrow> primitive_message h)"

text \<open>\<^verbatim>\<open>response.json()\<close> and \<^verbatim>\<open>response.text()\<close> read the body to its end.\<close>

definition body_text :: "response \<Rightarrow> string + string" where
  "body_text r = (case broken r of Some m \<Rightarrow> Inl m | None \<Rightarrow> Inr (concat (chunks r)))"

definition response_json :: "env \<Rightarrow> response \<Rightarrow> string + json" where
  "response_json h r = (case body_text r of Inl m \<Rightarrow> Inl m | Inr t \<Rightarrow> json_parse h t)"

section \<open>App.jsx\<close>

record settings =
  apiKey :: string
  model :: string

record app_state =
  summary :: json
  content :: json
  loading :: bool
  loadingStatus :: string
  error :: "string option"
  settings :: settings

definition default_model :: string where
  "default_model = ''gpt-5-mini-2025-08-07''"

text \<open>\<^verbatim>\<open>useState\<close> initial values of \<^verbatim>\<open>App\<close>.\<close>

definition initial_app :: app_state where
  "initial_app = \<lparr> summary = JNull, content = JNull, loading = False, loadingStatus = [],
     error = None, settings = \<lparr> apiKey = [], model = default_model \<rparr> \<rparr>"

definition handleSettingsChange :: "settings \<Rightarrow> app_state \<Rightarrow> app_state" where
  "handleSettingsChange newSettings st = st\<lparr> settings := newSettings \<rparr>"

subsection \<open>The generation stream\<close>

definition unexpected_end :: string where
  "unexpected_end = ''Unexpected end of JSON input''"

text \<open>\<^verbatim>\<open>chunk.split('\n')\<close>\<close>

fun split_nl :: "string \<Rightarrow> string list" where
  "split_nl [] = [[]]"
| "split_nl (c # cs) =
     (if c = CHR 0x0A then [] # split_nl cs
      else (case split_nl cs of [] \<Rightarrow> [[c]] | l # ls \<Rightarrow> (c # l) # ls))"

definition startsWith :: "string \<Rightarrow> string \<Rightarrow> bool" where
  "startsWith s p = (take (length p) s = p)"

definition is_data_line :: "string \<Rightarrow> bool" where
  "is_data_line line = startsWith line ''data: ''"

text \<open>
  The chain of \<^verbatim>\<open>if (data.status === ...)\<close> in the loop body. It runs after
  \<^verbatim>\<open>data.error\<close> was read, so \<^verbatim>\<open>data\<close> is not \<^verbatim>\<open>null\<close> here. \<open>Inl m\<close> is the
  TypeError of a \<^verbatim>\<open>partial\<close> that the template literal cannot render.
\<close>

definition apply_status :: "env \<Rightarrow> json \<Rightarrow> app_state \<Rightarrow> string + app_state" where
  "apply_status h d st =
     (if own_prop d ''status'' = JStr ''connecting'' then
        Inr (st\<lparr> loadingStatus := ''Connecting to AI...'' \<rparr>)
      else if own_prop d ''status'' = JStr ''generating'' then
        Inr (st\<lparr> loadingStatus := ''Generating marketing content...'' \<rparr>)
      else if own_prop d ''status'' = JStr ''streaming'' then
        (case to_string (own_prop d ''partial'') of
           None \<Rightarrow> Inl (primitive_message h)
         | Some t \<Rightarrow> Inr (st\<lparr> loadingStatus := ''Generating content... ('' @ t @ '' chars)'' \<rparr>))
      else if own_prop d ''status'' = JStr ''processing'' then
        Inr (st\<lparr> loadingStatus := ''Processing response...'' \<rparr>)
      else if own_prop d ''status'' = JStr ''complete'' then
        Inr (st\<lparr> content := own_prop d ''data'', loadingStatus := [] \<rparr>)
      else Inr st)"

text \<open>
  The inner \<^verbatim>\<open>catch (parseErr)\<close>: it receives whatever the \<^verbatim>\<open>try\<close> block threw, and
  throws it again unless its message is the one of a truncated input.
\<close>

definition rethrow :: "string \<Rightarrow> app_state \<Rightarrow> string + app_state" where
  "rethrow m st = (if m \<noteq> unexpected_end then Inl m else Inr st)"

text \<open>
  One turn of \<^verbatim>\<open>for (const line of lines)\<close>: \<open>Inl m\<close> is an exception with message
  \<open>m\<close> leaving the loop, \<open>Inr st\<close> the state after the turn.
\<close>

definition process_line :: "env \<Rightarrow> app_state \<Rightarrow> string \<Rightarrow> string + app_state" where
  "process_line h st line =
     (case json_parse h (drop 6 line) of
        Inl m \<Rightarrow> rethrow m st
      | Inr d \<Rightarrow>
          (case get_prop h d ''error'' of
             Inl m \<Rightarrow> rethrow m st
           | Inr e \<Rightarrow>
               if truthy e then rethrow (thrown_message h e) st
               else
                 (case apply_status h d st of
                    Inl m \<Rightarrow> rethrow m st
                  | Inr st' \<Rightarrow> Inr st')))"

text \<open>The \<^verbatim>\<open>for\<close> loop: the pending exception, if any, and the state reached.\<close>

fun process_lines :: "env \<Rightarrow> app_state \<Rightarrow> string list \<Rightarrow> string option \<times> app_state" where
  "process_lines h st [] = (None, st)"
| "process_lines h st (l # ls) =
     (case process_line h st l of
        Inl m \<Rightarrow> (Some m, st)
      | Inr st' \<Rightarrow> process_lines h st' ls)"

definition process_chunk :: "env \<Rightarrow> app_state \<Rightarrow> string \<Rightarrow> string option \<times> app_state" where
  "process_chunk h st chunk = process_lines h st (filter is_data_line (split_nl chunk))"

text \<open>\<^verbatim>\<open>while (true) { ... reader.read() ... }\<close> over the chunks of the body.\<close>

fun read_loop :: "env \<Rightarrow> app_state \<Rightarrow> string list \<Rightarrow> string option \<Rightarrow> string option \<times> app_state" where
  "read_loop h st [] brk = (brk, st)"
| "read_loop h st (c # cs) brk =
     (case process_chunk h st c of
        (Some m, st') \<Rightarrow> (Some m, st')
      | (None, st') \<Rightarrow> read_loop h st' cs brk)"

text \<open>The outer \<^verbatim>\<open>catch (err)\<close> and \<^verbatim>\<open>finally\<close> of \<^verbatim>\<open>handleGenerate\<close>.\<close>

definition settle :: "string option \<times> app_state \<Rightarrow> app_state" where
  "settle r =
     (case r of
        (Some m, st) \<Rightarrow> st\<lparr> error := Some m, loading := False, loadingStatus := [] \<rparr>
      | (None, st) \<Rightarrow> st\<lparr> loading := False, loadingStatus := [] \<rparr>)"

definition generate_request :: "env \<Rightarrow> app_state \<Rightarrow> request" where
  "generate_request h st =
     \<lparr> url = api_base h @ ''/generate-content-stream'',
       http_method = ''POST'',
       headers = [(''Content-Type'', ''application/json'')],
       body = JsonBody (JObj
         (AList.update ''model'' (JStr (model (settings st)))
           (AList.update ''api_key'' (JStr (apiKey (settings st)))
             (own_props (summary st))))) \<rparr>"

text \<open>The \<^verbatim>\<open>try\<close> block of \<^verbatim>\<open>handleGenerate\<close>, from the \<^verbatim>\<open>fetch\<close> on.\<close>

definition generate_try :: "env \<Rightarrow> app_state \<Rightarrow> string option \<times> app_state" where
  "generate_try h st =
     (case fetch h (generate_request h st) of
        Inl m \<Rightarrow> (Some m, st)
      | Inr r \<Rightarrow>
          if \<not> ok r then
            (case response_json h r of
               Inl m \<Rightarrow> (Some m, st)
             | Inr d \<Rightarrow>
                 (case get_prop h d ''detail'' of
                    Inl m \<Rightarrow> (Some m, st)
                  | Inr v \<Rightarrow>
                      (Some (thrown_message h (js_or v (JStr ''Failed to generate content''))), st)))
          else read_loop h st (chunks r) (broken r))"

text \<open>
  \<^verbatim>\<open>handleGenerate\<close>: the requests it sends, in order, and the state when it has
  finished.
\<close>

definition handleGenerate :: "env \<Rightarrow> app_state \<Rightarrow> request list \<times> app_state" where
  "handleGenerate h st =
     (if \<not> truthy (summary st) then ([], st)
      else if apiKey (settings st) = [] then
        ([], st\<lparr> error := Some ''Please configure your OpenAI API key in settings first.'' \<rparr>)
      else
        (let st1 = st\<lparr> loading := True, loadingStatus := ''Connecting to AI...'', error := None \<rparr>
         in ([generate_request h st1], settle (generate_try h st1))))"

subsection \<open>The upload\<close>

definition upload_request :: "env \<Rightarrow> js_file \<Rightarrow> request" where
  "upload_request h f =
     \<lparr> url = api_base h @ ''/upload-csv'',
       http_method = ''POST'',
       headers = [],
       body = FormData [(''file'', f)] \<rparr>"

text \<open>
  The message of the Error that \<^verbatim>\<open>handleUpload\<close> throws for a response that is not ok:
  the inner \<^verbatim>\<open>try\<close> reads \<^verbatim>\<open>data.detail || errorMsg\<close>, its \<^verbatim>\<open>catch\<close> takes any
  exception to \<^verbatim>\<open>Server error: <status>\<close>, and \<^verbatim>\<open>new Error\<close> renders what it is given
  (or throws the TypeError of a rendering that fails, outside that \<^verbatim>\<open>try\<close>).
\<close>

definition upload_error_message :: "env \<Rightarrow> response \<Rightarrow> string" where
  "upload_error_message h r =
     (case response_json h r of
        Inl m \<Rightarrow> ''Server error: '' @ show_nat (status r)
      | Inr d \<Rightarrow>
          (case get_prop h d ''detail'' of
             Inl m \<Rightarrow> ''Server error: '' @ show_nat (status r)
           | Inr v \<Rightarrow> thrown_message h (js_or v (JStr ''Failed to upload CSV''))))"

text \<open>The \<^verbatim>\<open>try\<close> block of \<^verbatim>\<open>handleUpload\<close>: \<open>Inl m\<close> is an exception with message \<open>m\<close>.\<close>

definition upload_try :: "env \<Rightarrow> app_state \<Rightarrow> js_file \<Rightarrow> string + app_state" where
  "upload_try h st f =
     (case fetch h (upload_request h f) of
        Inl m \<Rightarrow> Inl m
      | Inr r \<Rightarrow>
          if \<not> ok r then Inl (upload_error_message h r)
          else
            (case body_text r of
               Inl m \<Rightarrow> Inl m
             | Inr t \<Rightarrow>
                 if t = [] then Inl ''Empty response from server''
                 else
                   (case json_parse h t of
                      Inl m \<Rightarrow> Inl m
                    | Inr d \<Rightarrow> Inr (st\<lparr> summary := d, loadingStatus := [] \<rparr>))))"

definition handleUpload :: "env \<Rightarrow> app_state \<Rightarrow> js_file \<Rightarrow> request list \<times> app_state" where
  "handleUpload h st f =
     (let st1 = st\<lparr> loading := True, loadingStatus := ''Uploading CSV...'', error := None,
                    content := JNull \<rparr>
      in ([upload_request h f],
          (case upload_try h st1 f of
             Inl m \<Rightarrow>
               st1\<lparr> error := Some (if m = [] then ''An error occurred while uploading'' else m),
                    summary := JNull, loading := False \<rparr>
           | Inr st2 \<Rightarrow> st2\<lparr> loading := False \<rparr>)))"

section \<open>Settings.jsx\<close>

text \<open>
  \<^verbatim>\<open>localStorage\<close> is a map from keys to strings; the component's state is the two
  inputs and two flags. Each handler returns the new state, the new storage and the
  settings it hands to \<^verbatim>\<open>onSettingsChange\<close>. The timer that takes \<^verbatim>\<open>saved\<close> back after
  two seconds is not part of the model.
\<close>

type_synonym storage = "string \<Rightarrow> string option"

record settings_state = settings +
  isOpen :: bool
  saved :: bool

text \<open>\<^verbatim>\<open>localStorage.getItem(k) || d\<close>\<close>

definition stored_or :: "string option \<Rightarrow> string \<Rightarrow> string" where
  "stored_or v d = (case v of None \<Rightarrow> d | Some s \<Rightarrow> if s = [] then d else s)"

text \<open>The effect that runs on mount, on the \<^verbatim>\<open>useState\<close> initial values.\<close>

definition mount :: "storage \<Rightarrow> settings_state \<times> settings" where
  "mount store =
     (let savedKey = stored_or (store ''openai_api_key'') [];
          savedModel = stored_or (store ''openai_model'') default_model
      in (\<lparr> apiKey = savedKey, model = savedModel, isOpen = False, saved = False \<rparr>,
          \<lparr> apiKey = savedKey, model = savedModel \<rparr>))"

definition handleSave :: "settings_state \<Rightarrow> storage \<Rightarrow> settings_state \<times> storage \<times> settings" where
  "handleSave c store =
     (c\<lparr> saved := True \<rparr>,
      store(''openai_api_key'' \<mapsto> apiKey c, ''openai_model'' \<mapsto> model c),
      \<lparr> apiKey = apiKey c, model = model c \<rparr>)"

definition handleClear :: "settings_state \<Rightarrow> storage \<Rightarrow> settings_state \<times> storage \<times> settings" where
  "handleClear c store =
     (c\<lparr> apiKey := [], model := default_model \<rparr>,
      store(''openai_api_key'' := None, ''openai_model'' := None),
      \<lparr> apiKey = [], model = default_model \<rparr>)"

section \<open>CsvUpload.jsx\<close>

record upload_state =
  fileName :: "string option"
  isDragging :: bool

datatype upload_effect = OnUpload js_file | Alert string

definition endsWith :: "string \<Rightarrow> string \<Rightarrow> bool" where
  "endsWith s suf = (length suf \<le> length s \<and> drop (length s - length suf) s = suf)"

text \<open>\<^verbatim>\<open>handleFileSelect(file)\<close>, where \<^verbatim>\<open>file\<close> is a File or \<^verbatim>\<open>undefined\<close>.\<close>

definition handleFileSelect :: "js_file option \<Rightarrow> upload_state \<Rightarrow> upload_effect list \<times> upload_state" where
  "handleFileSelect fo c =
     (case fo of
        Some f \<Rightarrow>
          if endsWith (name f) ''.csv'' then ([OnUpload f], c\<lparr> fileName := Some (name f) \<rparr>)
          else ([Alert ''Please select a CSV file''], c)
      | None \<Rightarrow> ([Alert ''Please select a CSV file''], c))"

text \<open>\<^verbatim>\<open>files[0]\<close> of a FileList: \<^verbatim>\<open>undefined\<close> when the list is empty.\<close>

definition first_file :: "js_file list \<Rightarrow> js_file option" where
  "first_file fs = (case fs of [] \<Rightarrow> None | f # _ \<Rightarrow> Some f)"

definition handleChange :: "js_file list \<Rightarrow> upload_state \<Rightarrow> upload_effect list \<times> upload_state" where
  "handleChange fs c = handleFileSelect (first_file fs) c"

definition handleDrop :: "js_file list \<Rightarrow> upload_state \<Rightarrow> upload_effect list \<times> upload_state" where
  "handleDrop fs c = handleFileSelect (first_file fs) (c\<lparr> isDragging := False \<rparr>)"

text \<open>The files handed to \<^verbatim>\<open>onUpload\<close>, in order.\<close>

fun uploads :: "upload_effect list \<Rightarrow> js_file list" where
  "uploads [] = []"
| "uploads (OnUpload f # es) = f # uploads es"
| "uploads (Alert m # es) = uploads es"

section \<open>The event stream of the server\<close>

text \<open>
  Modelled from the spec: the server side of \<^verbatim>\<open>POST /generate-content-stream\<close> is not
  among the sources. The error kinds are the taxonomy of section 7 that a generation
  request can meet.
\<close>

datatype error_kind =
    AuthError
  | RateLimitError
  | ModelUnavailable
  | UpstreamTimeout
  | MalformedModelOutput
  | SchemaValidationError string

text \<open>
  Modelled from the spec: the status values of the StreamEvent of section 3,
  \<^verbatim>\<open>connecting\<close>, \<^verbatim>\<open>generating\<close>, \<^verbatim>\<open>streaming(partial_char_count)\<close> and \<^verbatim>\<open>processing\<close>.
\<close>

datatype stage = Connecting | Generating | Streaming nat | Processing

text \<open>
  Modelled from the spec: the StreamEvent of section 3, one of a status, the terminal
  \<^verbatim>\<open>data\<close> with the generated content, and the terminal \<^verbatim>\<open>error\<close> with its message.
\<close>

datatype 'c stream_event = StatusEvent stage | DataEvent 'c | ErrorEvent string

text \<open>
  Modelled from the spec: what sections 4.5 and 4.6 leave open, taken as parameters. The
  cadence of the \<^verbatim>\<open>streaming\<close> events (whether one follows the token of a given index),
  the extraction and validation of the accumulated text, and the human-readable message
  of each error kind.
\<close>

record 'c pipeline =
  throttle :: "nat \<Rightarrow> bool"
  parse_validate :: "string \<Rightarrow> error_kind + 'c"
  describe :: "error_kind \<Rightarrow> string"

text \<open>
  Modelled from the spec: one streaming call to the language model, the tokens it
  delivered and the failure that ended it, if it did not signal completion.
\<close>

record upstream =
  tokens :: "string list"
  failure :: "error_kind option"

text \<open>
  Modelled from the spec: section 4.5, \<^verbatim>\<open>generating\<close> on the first token, then
  \<^verbatim>\<open>streaming\<close> with the count of characters accumulated so far, on the throttled
  cadence.
\<close>

fun token_events :: "(nat \<Rightarrow> bool) \<Rightarrow> nat \<Rightarrow> nat \<Rightarrow> string list \<Rightarrow> 'c stream_event list" where
  "token_events thr i acc [] = []"
| "token_events thr i acc (t # ts) =
     (if i = 0 then [StatusEvent Generating]
      else if thr i then [StatusEvent (Streaming (acc + length t))]
      else [])
     @ token_events thr (Suc i) (acc + length t) ts"

text \<open>
  Modelled from the spec: sections 4.5 to 4.7, the events of one request in emission
  order. \<^verbatim>\<open>connecting\<close> at once, the token events, then either the terminal error of a
  failed call, or \<^verbatim>\<open>processing\<close> and the terminal result of parsing and validating the
  whole text. A request that its client abandons (section 5) is outside this model.
\<close>

definition emit_events :: "'c pipeline \<Rightarrow> upstream \<Rightarrow> 'c stream_event list" where
  "emit_events P u =
     StatusEvent Connecting # token_events (throttle P) 0 0 (tokens u)
     @ (case failure u of
          Some k \<Rightarrow> [ErrorEvent (describe P k)]
        | None \<Rightarrow>
            [StatusEvent Processing,
             (case parse_validate P (concat (tokens u)) of
                Inl k \<Rightarrow> ErrorEvent (describe P k)
              | Inr c \<Rightarrow> DataEvent c)])"

text \<open>Modelled from the spec: the terminal events of the glossary, \<^verbatim>\<open>data\<close> and \<^verbatim>\<open>error\<close>.\<close>

fun is_terminal :: "'c stream_event \<Rightarrow> bool" where
  "is_terminal (StatusEvent s) = False"
| "is_terminal (DataEvent c) = True"
| "is_terminal (ErrorEvent m) = True"

text \<open>Modelled from the spec: the place of an event in the pipeline order of section 5.\<close>

fun stage_rank :: "'c stream_event \<Rightarrow> nat" where
  "stage_rank (StatusEvent Connecting) = 0"
| "stage_rank (StatusEvent Generating) = 1"
| "stage_rank (StatusEvent (Streaming n)) = 2"
| "stage_rank (StatusEvent Processing) = 3"
| "stage_rank (DataEvent c) = 4"
| "stage_rank (ErrorEvent m) = 4"

section \<open>A concrete browser and concrete traffic\<close>

text \<open>
  The inputs at which the theorems below are instantiated. \<open>parse_table\<close> lists what
  \<^verbatim>\<open>JSON.parse\<close> answers for each text used. ECMAScript leaves the message of a
  SyntaxError to the engine; the two truncated texts get the messages of V8, which are
  \<^verbatim>\<open>Unexpected end of JSON input\<close> where the input ends between tokens and
  \<^verbatim>\<open>Unterminated string in JSON at position 14\<close> where it ends inside a string (later
  releases append the line and the column).
\<close>

text \<open>The server-sent line that carries the text \<open>t\<close>.\<close>

definition sse :: "string \<Rightarrow> string" where
  "sse t = ''data: '' @ t"

definition ideas :: json where
  "ideas = JObj [(''promotion_ideas'', JArr [])]"

definition complete_text :: string where
  \<open>complete_text = ''{"status":"complete","data":{"promotion_ideas":[]}}''\<close>

definition complete_error_text :: string where
  \<open>complete_error_text =
     ''{"status":"complete","data":{"promotion_ideas":[]},"error":"quota exceeded"}''\<close>

definition empty_error_text :: string where
  \<open>empty_error_text = ''{"error":"","status":"complete","data":{"promotion_ideas":[]}}''\<close>

definition error_text :: string where
  \<open>error_text = ''{"error":"Invalid API key"}''\<close>

definition generating_text :: string where
  \<open>generating_text = ''{"status":"generating"}''\<close>

definition cut_in_string_text :: string where
  \<open>cut_in_string_text = ''{"status":"gen''\<close>

definition cut_after_colon_text :: string where
  \<open>cut_after_colon_text = ''{"status":''\<close>

definition cut_rest_text :: string where
  \<open>cut_rest_text = ''erating"}''\<close>

definition blank_line :: string where
  "blank_line = [CHR 0x0A, CHR 0x0A]"

definition connecting_error_text :: string where
  \<open>connecting_error_text = ''{"status":"connecting","error":"boom"}''\<close>

definition complete_cut_text :: string where
  \<open>complete_cut_text = ''{"status":"complete","data":''\<close>

definition complete_rest_text :: string where
  \<open>complete_rest_text = ''{"promotion_ideas":[]}}''\<close>

definition streaming_text :: string where
  \<open>streaming_text = ''{"status":"streaming","partial":120}''\<close>

definition detail_text :: string where
  \<open>detail_text = ''{"detail":"Unsupported CSV format"}''\<close>

definition empty_detail_text :: string where
  \<open>empty_detail_text = ''{"detail":""}''\<close>

definition summary_text :: string where
  \<open>summary_text = ''{"date_range":{"start":"2025-01-01","end":"2025-01-01"},"top_items":[]}''\<close>

definition summary_value :: json where
  "summary_value =
     JObj [(''date_range'', JObj [(''start'', JStr ''2025-01-01''), (''end'', JStr ''2025-01-01'')]),
           (''top_items'', JArr [])]"

definition parse_table :: "(string \<times> (string + json)) list" where
  "parse_table =
     [(complete_text, Inr (JObj [(''status'', JStr ''complete''), (''data'', ideas)])),
      (complete_error_text,
         Inr (JObj [(''status'', JStr ''complete''), (''data'', ideas),
                    (''error'', JStr ''quota exceeded'')])),
      (empty_error_text,
         Inr (JObj [(''error'', JStr []), (''status'', JStr ''complete''), (''data'', ideas)])),
      (error_text, Inr (JObj [(''error'', JStr ''Invalid API key'')])),
      (generating_text, Inr (JObj [(''status'', JStr ''generating'')])),
      (cut_in_string_text, Inl ''Unterminated string in JSON at position 14''),
      (cut_after_colon_text, Inl ''Unexpected end of JSON input''),
      (detail_text, Inr (JObj [(''detail'', JStr ''Unsupported CSV format'')])),
      (empty_detail_text, Inr (JObj [(''detail'', JStr [])])),
      (summary_text, Inr summary_value),
      (connecting_error_text,
         Inr (JObj [(''status'', JStr ''connecting''), (''error'', JStr ''boom'')])),
      (complete_cut_text, Inl ''Unexpected end of JSON input''),
      (streaming_text, Inr (JObj [(''status'', JStr ''streaming''), (''partial'', JNum ''120'')]))]"

definition table_parse :: "string \<Rightarrow> string + json" where
  "table_parse t = (case map_of parse_table t of Some r \<Rightarrow> r | None \<Rightarrow> Inl ''Unexpected token'')"

definition null_read :: "string \<Rightarrow> string" where
  "null_read p = ''Cannot read properties of null (reading '' @ [CHR 0x27] @ p @ [CHR 0x27] @ '')''"

text \<open>A browser that answers every request with the response \<open>r\<close>.\<close>

definition browser :: "response \<Rightarrow> env" where
  "browser r = \<lparr> api_base = ''http://localhost:8000'', json_parse = table_parse,
     null_read_message = null_read,
     primitive_message = ''Cannot convert object to primitive value'',
     fetch = (\<lambda>q. Inr r) \<rparr>"

definition reply :: "bool \<Rightarrow> nat \<Rightarrow> string list \<Rightarrow> response" where
  "reply k n cs = \<lparr> ok = k, status = n, chunks = cs, broken = None \<rparr>"

definition loaded_app :: app_state where
  "loaded_app = initial_app\<lparr> summary := summary_value,
     settings := \<lparr> apiKey = ''sk-test'', model = default_model \<rparr> \<rparr>"

definition menu_csv :: js_file where
  "menu_csv = \<lparr> name = ''menu.csv'', bytes = ''date,item_name,quantity_sold,category'' \<rparr>"

definition photo_png :: js_file where
  "photo_png = \<lparr> name = ''photo.png'', bytes = [] \<rparr>"

definition pasted_settings :: settings_state where
  "pasted_settings = \<lparr> apiKey = ''sk-test'', model = ''gpt-4o-mini'', isOpen = True, saved = False \<rparr>"

definition blanked_model :: settings_state where
  "blanked_model = \<lparr> apiKey = ''sk-test'', model = [], isOpen = True, saved = False \<rparr>"

definition idle_upload :: upload_state where
  "idle_upload = \<lparr> fileName = None, isDragging = True \<rparr>"

text \<open>
  Modelled from the spec: a pipeline that emits a \<^verbatim>\<open>streaming\<close> event at every second
  token and accepts any text that is not empty; the call below delivered three tokens and
  signalled completion.
\<close>

definition demo_pipeline :: "string pipeline" where
  "demo_pipeline = \<lparr> throttle = (\<lambda>i. even i),
     parse_validate = (\<lambda>t. if t = [] then Inl MalformedModelOutput else Inr t),
     describe = (\<lambda>k. ''Generation failed'') \<rparr>"

text \<open>Modelled from the spec: the call that \<open>demo_pipeline\<close> is run on.\<close>

definition demo_call :: upstream where
  "demo_call = \<lparr> tokens = [''{'', ''}'', ''!''], failure = None \<rparr>"

text \<open>
  A stream whose second chunk carries an error event between two other events, and a
  stream that runs to its \<^verbatim>\<open>complete\<close> event.
\<close>

definition failing_reply :: response where
  "failing_reply = reply True 200
     [sse complete_text @ blank_line,
      join_with [CHR 0x0A] [sse generating_text, sse error_text, sse complete_text],
      sse complete_text @ blank_line]"

definition complete_reply :: response where
  "complete_reply = reply True 200
     [sse generating_text @ blank_line, sse complete_text @ blank_line]"

section \<open>Evaluating the concrete traffic\<close>

lemmas text_defs = complete_text_def complete_error_text_def empty_error_text_def error_text_def
  generating_text_def cut_in_string_text_def cut_after_colon_text_def detail_text_def
  empty_detail_text_def summary_text_def connecting_error_text_def complete_cut_text_def
  streaming_text_def

lemma browser_simps:
  "json_parse (browser r) = table_parse"
  "null_read_message (browser r) = null_read"
  "primitive_message (browser r) = ''Cannot convert object to primitive value''"
  "fetch (browser r) q = Inr r"
  "api_base (browser r) = ''http://localhost:8000''"
  by (simp_all add: browser_def)

lemma reply_simps:
  "ok (reply k n cs) = k"
  "status (reply k n cs) = n"
  "chunks (reply k n cs) = cs"
  "broken (reply k n cs) = None"
  by (simp_all add: reply_def)

lemma loaded_app_simps:
  "summary loaded_app = summary_value"
  "apiKey (settings loaded_app) = ''sk-test''"
  "model (settings loaded_app) = default_model"
  by (simp_all add: loaded_app_def)

lemma sse_simps:
  "drop 6 (sse t) = t"
  "is_data_line (sse t)"
  by (simp_all add: sse_def is_data_line_def startsWith_def)

lemma parse_complete:
  "table_parse complete_text = Inr (JObj [(''status'', JStr ''complete''), (''data'', ideas)])"
  by (simp add: table_parse_def parse_table_def text_defs)

lemma parse_complete_error:
  "table_parse complete_error_text =
     Inr (JObj [(''status'', JStr ''complete''), (''data'', ideas),
                (''error'', JStr ''quota exceeded'')])"
  by (simp add: table_parse_def parse_table_def text_defs)

lemma parse_empty_error:
  "table_parse empty_error_text
     = Inr (JObj [(''error'', JStr []), (''status'', JStr ''complete''), (''data'', ideas)])"
  by (simp add: table_parse_def parse_table_def text_defs)

lemma parse_error:
  "table_parse error_text = Inr (JObj [(''error'', JStr ''Invalid API key'')])"
  by (simp add: table_parse_def parse_table_def text_defs)

lemma parse_generating:
  "table_parse generating_text = Inr (JObj [(''status'', JStr ''generating'')])"
  by (simp add: table_parse_def parse_table_def text_defs)

lemma parse_cut_in_string:
  "table_parse cut_in_string_text = Inl ''Unterminated string in JSON at position 14''"
  by (simp add: table_parse_def parse_table_def text_defs)

lemma parse_cut_after_colon: "table_parse cut_after_colon_text = Inl unexpected_end"
  by (simp add: table_parse_def parse_table_def unexpected_end_def text_defs)

lemma parse_detail:
  "table_parse detail_text = Inr (JObj [(''detail'', JStr ''Unsupported CSV format'')])"
  by (simp add: table_parse_def parse_table_def text_defs)

lemma parse_empty_detail: "table_parse empty_detail_text = Inr (JObj [(''detail'', JStr [])])"
  by (simp add: table_parse_def parse_table_def text_defs)

lemma parse_summary: "table_parse summary_text = Inr summary_value"
  by (simp add: table_parse_def parse_table_def text_defs)

lemma parse_connecting_error:
  "table_parse connecting_error_text
     = Inr (JObj [(''status'', JStr ''connecting''), (''error'', JStr ''boom'')])"
  by (simp add: table_parse_def parse_table_def text_defs)

lemma parse_complete_cut: "table_parse complete_cut_text = Inl unexpected_end"
  by (simp add: table_parse_def parse_table_def unexpected_end_def text_defs)

lemma parse_streaming:
  "table_parse streaming_text
     = Inr (JObj [(''status'', JStr ''streaming''), (''partial'', JNum ''120'')])"
  by (simp add: table_parse_def parse_table_def text_defs)

lemma reply_json: "response_json (browser r) (reply k n [t]) = table_parse t"
  by (simp add: response_json_def body_text_def reply_simps browser_simps)

lemma no_newline:
  "CHR 0x0A \<notin> set (sse generating_text)"
  "CHR 0x0A \<notin> set (sse cut_in_string_text)"
  "CHR 0x0A \<notin> set (sse cut_after_colon_text)"
  "CHR 0x0A \<notin> set (sse error_text)"
  "CHR 0x0A \<notin> set (sse empty_error_text)"
  "CHR 0x0A \<notin> set (sse complete_text)"
  "CHR 0x0A \<notin> set cut_rest_text"
  "CHR 0x0A \<notin> set (sse complete_cut_text)"
  "CHR 0x0A \<notin> set complete_rest_text"
  by (simp_all add: sse_def text_defs cut_rest_text_def complete_rest_text_def)

lemma not_data_rest:
  "\<not> is_data_line cut_rest_text"
  "\<not> is_data_line complete_rest_text"
  by (simp_all add: is_data_line_def startsWith_def cut_rest_text_def complete_rest_text_def)

section \<open>One line of the generation stream\<close>

lemma own_prop_defined: "own_prop d p \<noteq> JUndefined \<Longrightarrow> d \<noteq> JNull \<and> d \<noteq> JUndefined"
  by (cases d) auto

lemma process_line_ok:
  assumes "json_parse h (drop 6 line) = Inr d" "d \<noteq> JNull" "d \<noteq> JUndefined"
    "\<not> truthy (own_prop d ''error'')"
  shows "process_line h st line
    = (case apply_status h d st of Inl m \<Rightarrow> rethrow m st | Inr st' \<Rightarrow> Inr st')"
  using assms by (simp add: process_line_def get_prop_def)

lemma apply_status_content:
  "apply_status h d st = Inr st' \<Longrightarrow> own_prop d ''status'' \<noteq> JStr ''complete'' \<Longrightarrow>
   content st' = content st"
  by (auto simp: apply_status_def split: if_splits option.splits)

lemma apply_status_complete:
  "own_prop d ''status'' = JStr ''complete'' \<Longrightarrow>
   apply_status h d st = Inr (st\<lparr> content := own_prop d ''data'', loadingStatus := [] \<rparr>)"
  by (simp add: apply_status_def)

lemma rethrow_state: "rethrow m st = Inr st' \<Longrightarrow> st' = st"
  by (simp add: rethrow_def split: if_splits)

text \<open>A turn of the loop that changes the content had a payload with status \<^verbatim>\<open>complete\<close>.\<close>

lemma process_line_content:
  assumes "process_line h st line = Inr st'" "content st' \<noteq> content st"
  shows "\<exists>d. json_parse h (drop 6 line) = Inr d \<and> own_prop d ''status'' = JStr ''complete''"
proof (cases "json_parse h (drop 6 line)")
  case (Inl m)
  with assms show ?thesis
    by (auto simp: process_line_def dest: rethrow_state)
next
  case (Inr d)
  show ?thesis
  proof (cases "get_prop h d ''error''")
    case (Inl m)
    with assms Inr show ?thesis
      by (auto simp: process_line_def dest: rethrow_state)
  next
    case e: (Inr e)
    show ?thesis
    proof (cases "truthy e")
      case True
      with assms Inr e show ?thesis
        by (auto simp: process_line_def dest: rethrow_state)
    next
      case False
      show ?thesis
      proof (cases "apply_status h d st")
        case (Inl m)
        with assms Inr e False show ?thesis
          by (auto simp: process_line_def dest: rethrow_state)
      next
        case s: (Inr s)
        with assms Inr e False have "st' = s"
          by (simp add: process_line_def)
        with assms(2) s have "own_prop d ''status'' = JStr ''complete''"
          using apply_status_content by blast
        with Inr show ?thesis by simp
      qed
    qed
  qed
qed

lemma process_line_skip:
  "json_parse h (drop 6 line) = Inl unexpected_end \<Longrightarrow> process_line h st line = Inr st"
  by (simp add: process_line_def rethrow_def)

lemma process_line_error:
  assumes "json_parse h (drop 6 line) = Inr d" "own_prop d ''error'' = JStr e" "e \<noteq> []"
    "e \<noteq> unexpected_end"
  shows "process_line h st line = Inl e"
proof -
  from assms(2) have "d \<noteq> JNull \<and> d \<noteq> JUndefined"
    using own_prop_defined [of d "''error''"] by simp
  with assms show ?thesis
    by (simp add: process_line_def get_prop_def rethrow_def thrown_message_def)
qed

text \<open>
  The inner \<^verbatim>\<open>catch\<close> also receives the Error thrown for a server-sent error, and
  skips it when the server's message is the one of a truncated input.
\<close>

lemma process_line_error_swallowed:
  assumes "json_parse h (drop 6 line) = Inr d" "own_prop d ''error'' = JStr unexpected_end"
  shows "process_line h st line = Inr st"
proof -
  from assms(2) have "d \<noteq> JNull \<and> d \<noteq> JUndefined"
    using own_prop_defined [of d "''error''"] by simp
  with assms show ?thesis
    by (simp add: process_line_def get_prop_def rethrow_def thrown_message_def
        unexpected_end_def)
qed

lemma process_line_status:
  assumes "json_parse h (drop 6 line) = Inr d" "\<not> truthy (own_prop d ''error'')"
    "own_prop d ''status'' = JStr v"
  shows "process_line h st line
    = (case apply_status h d st of Inl m \<Rightarrow> rethrow m st | Inr st' \<Rightarrow> Inr st')"
proof -
  from assms(3) have "d \<noteq> JNull \<and> d \<noteq> JUndefined"
    using own_prop_defined [of d "''status''"] by simp
  with assms show ?thesis
    by (simp add: process_line_ok)
qed

text \<open>
  C5, as amended. A line that the loop reaches, whose payload has no truthy \<^verbatim>\<open>error\<close>
  field, sets the loading message by its status: \<^verbatim>\<open>connecting\<close> gives
  \<^verbatim>\<open>Connecting to AI...\<close>, \<^verbatim>\<open>generating\<close> gives \<^verbatim>\<open>Generating marketing content...\<close>,
  \<^verbatim>\<open>streaming\<close> gives \<^verbatim>\<open>Generating content... (N chars)\<close> where \<^verbatim>\<open>N\<close> is the
  rendering of the event's \<^verbatim>\<open>partial\<close> field (for a number, the number as JavaScript
  prints it), and \<^verbatim>\<open>processing\<close> gives \<^verbatim>\<open>Processing response...\<close>; nothing else of
  the state changes.
\<close>

theorem status_messages:
  assumes "json_parse h (drop 6 line) = Inr d" "\<not> truthy (own_prop d ''error'')"
  shows
  "(own_prop d ''status'' = JStr ''connecting'' \<longrightarrow>
      process_line h st line = Inr (st\<lparr> loadingStatus := ''Connecting to AI...'' \<rparr>)) \<and>
   (own_prop d ''status'' = JStr ''generating'' \<longrightarrow>
      process_line h st line = Inr (st\<lparr> loadingStatus := ''Generating marketing content...'' \<rparr>)) \<and>
   (own_prop d ''status'' = JStr ''streaming'' \<and> to_string (own_prop d ''partial'') = Some t \<longrightarrow>
      process_line h st line
        = Inr (st\<lparr> loadingStatus := ''Generating content... ('' @ t @ '' chars)'' \<rparr>)) \<and>
   (own_prop d ''status'' = JStr ''streaming'' \<and> own_prop d ''partial'' = JNum n \<longrightarrow>
      process_line h st line
        = Inr (st\<lparr> loadingStatus := ''Generating content... ('' @ n @ '' chars)'' \<rparr>)) \<and>
   (own_prop d ''status'' = JStr ''processing'' \<longrightarrow>
      process_line h st line = Inr (st\<lparr> loadingStatus := ''Processing response...'' \<rparr>))"
proof -
  have p: "process_line h st line
      = (case apply_status h d st of Inl m \<Rightarrow> rethrow m st | Inr st' \<Rightarrow> Inr st')"
    if "own_prop d ''status'' = JStr v" for v
    using assms that by (rule process_line_status)
  have 1: "process_line h st line = Inr (st\<lparr> loadingStatus := ''Connecting to AI...'' \<rparr>)"
    if "own_prop d ''status'' = JStr ''connecting''"
    using that p [OF that] by (simp add: apply_status_def)
  have 2: "process_line h st line = Inr (st\<lparr> loadingStatus := ''Generating marketing content...'' \<rparr>)"
    if "own_prop d ''status'' = JStr ''generating''"
    using that p [OF that] by (simp add: apply_status_def)
  have 3: "process_line h st line
      = Inr (st\<lparr> loadingStatus := ''Generating content... ('' @ u @ '' chars)'' \<rparr>)"
    if "own_prop d ''status'' = JStr ''streaming''" "to_string (own_prop d ''partial'') = Some u"
    for u
    using that p [OF that(1)] by (simp add: apply_status_def)
  have 4: "process_line h st line = Inr (st\<lparr> loadingStatus := ''Processing response...'' \<rparr>)"
    if "own_prop d ''status'' = JStr ''processing''"
    using that p [OF that] by (simp add: apply_status_def)
  from 1 2 3 [of t] 3 [of n] 4 show ?thesis by simp
qed

theorem status_messages_witness:
  "process_line (browser complete_reply) initial_app (sse generating_text)
     = Inr (initial_app\<lparr> loadingStatus := ''Generating marketing content...'' \<rparr>) \<and>
   process_line (browser complete_reply) initial_app (sse streaming_text)
     = Inr (initial_app\<lparr> loadingStatus := ''Generating content... (120 chars)'' \<rparr>)"
proof -
  let ?B = "browser complete_reply"
  have g: "json_parse ?B (drop 6 (sse generating_text)) = Inr (JObj [(''status'', JStr ''generating'')])"
    "\<not> truthy (own_prop (JObj [(''status'', JStr ''generating'')]) ''error'')"
    by (simp_all add: browser_simps sse_simps parse_generating)
  have t: "json_parse ?B (drop 6 (sse streaming_text))
      = Inr (JObj [(''status'', JStr ''streaming''), (''partial'', JNum ''120'')])"
    "\<not> truthy (own_prop (JObj [(''status'', JStr ''streaming''), (''partial'', JNum ''120'')]) ''error'')"
    by (simp_all add: browser_simps sse_simps parse_streaming)
  from status_messages [OF g, where st = initial_app]
    status_messages [OF t, where st = initial_app and t = "''120''" and n = "''120''"]
  show ?thesis by simp
qed

text \<open>
  C5 as stated fails where the payload has a progress status and also a truthy
  \<^verbatim>\<open>error\<close> field: the \<^verbatim>\<open>error\<close> check comes first and throws, and the loading message
  stays what it was.
\<close>

theorem status_with_error_counterexample:
  "json_parse (browser complete_reply) (drop 6 (sse connecting_error_text))
     = Inr (JObj [(''status'', JStr ''connecting''), (''error'', JStr ''boom'')]) \<and>
   process_line (browser complete_reply) initial_app (sse connecting_error_text) = Inl ''boom'' \<and>
   process_lines (browser complete_reply) initial_app [sse connecting_error_text]
     = (Some ''boom'', initial_app) \<and>
   loadingStatus initial_app = []"
  by (simp add: browser_simps sse_simps parse_connecting_error process_line_def get_prop_def
      rethrow_def thrown_message_def unexpected_end_def initial_app_def)

text \<open>
  C1, as amended. A line that the loop reaches, whose payload has status \<^verbatim>\<open>complete\<close>
  and no truthy \<^verbatim>\<open>error\<close> field, sets the content to exactly the payload's \<^verbatim>\<open>data\<close>
  field and clears the loading status; and a turn of the loop that changes the content at
  all had a payload with status \<^verbatim>\<open>complete\<close>, so no other status sets it.
\<close>

theorem complete_sets_content:
  "(json_parse h (drop 6 line) = Inr d \<and> own_prop d ''status'' = JStr ''complete'' \<and>
      \<not> truthy (own_prop d ''error'') \<longrightarrow>
    process_line h st line = Inr (st\<lparr> content := own_prop d ''data'', loadingStatus := [] \<rparr>)) \<and>
   (process_line h st line = Inr st' \<and> content st' \<noteq> content st \<longrightarrow>
    (\<exists>p. json_parse h (drop 6 line) = Inr p \<and> own_prop p ''status'' = JStr ''complete''))"
proof (intro conjI impI)
  assume a: "json_parse h (drop 6 line) = Inr d \<and> own_prop d ''status'' = JStr ''complete'' \<and>
      \<not> truthy (own_prop d ''error'')"
  then have "d \<noteq> JNull \<and> d \<noteq> JUndefined"
    using own_prop_defined [of d "''status''"] by simp
  with a have "process_line h st line
      = (case apply_status h d st of Inl m \<Rightarrow> rethrow m st | Inr st' \<Rightarrow> Inr st')"
    by (simp add: process_line_ok)
  with a show "process_line h st line
      = Inr (st\<lparr> content := own_prop d ''data'', loadingStatus := [] \<rparr>)"
    by (simp add: apply_status_complete)
next
  assume "process_line h st line = Inr st' \<and> content st' \<noteq> content st"
  then show "\<exists>p. json_parse h (drop 6 line) = Inr p \<and> own_prop p ''status'' = JStr ''complete''"
    using process_line_content by blast
qed

theorem complete_sets_content_witness:
  "process_line (browser complete_reply) initial_app (sse complete_text)
     = Inr (initial_app\<lparr> content := ideas, loadingStatus := [] \<rparr>) \<and>
   content (initial_app\<lparr> content := ideas, loadingStatus := [] \<rparr>) \<noteq> content initial_app \<and>
   (\<exists>p. json_parse (browser complete_reply) (drop 6 (sse complete_text)) = Inr p \<and>
        own_prop p ''status'' = JStr ''complete'')"
  using complete_sets_content [of "browser complete_reply" "sse complete_text"
      "JObj [(''status'', JStr ''complete''), (''data'', ideas)]" initial_app
      "initial_app\<lparr> content := ideas, loadingStatus := [] \<rparr>"]
  by (simp add: browser_simps sse_simps parse_complete initial_app_def ideas_def)

text \<open>
  C1 as stated fails where the payload has status \<^verbatim>\<open>complete\<close> and also a truthy
  \<^verbatim>\<open>error\<close> field: the \<^verbatim>\<open>error\<close> check comes first and throws, and the content stays
  what it was.
\<close>

theorem complete_with_error_counterexample:
  "json_parse (browser complete_reply) (drop 6 (sse complete_error_text))
     = Inr (JObj [(''status'', JStr ''complete''), (''data'', ideas),
                  (''error'', JStr ''quota exceeded'')]) \<and>
   process_line (browser complete_reply) initial_app (sse complete_error_text)
     = Inl ''quota exceeded'' \<and>
   content (snd (process_lines (browser complete_reply) initial_app [sse complete_error_text]))
     = JNull"
  by (simp add: browser_simps sse_simps parse_complete_error process_line_def get_prop_def
      rethrow_def thrown_message_def unexpected_end_def initial_app_def)

section \<open>Chunks, lines and the read loop\<close>

lemma split_nl_line: "CHR 0x0A \<notin> set l \<Longrightarrow> split_nl (l @ CHR 0x0A # s) = l # split_nl s"
  by (induction l) auto

lemma split_nl_single: "CHR 0x0A \<notin> set l \<Longrightarrow> split_nl l = [l]"
  by (induction l) auto

lemma split_nl_join:
  "ls \<noteq> [] \<Longrightarrow> \<forall>l\<in>set ls. CHR 0x0A \<notin> set l \<Longrightarrow> split_nl (join_with [CHR 0x0A] ls) = ls"
proof (induction "[CHR 0x0A]" ls rule: join_with.induct)
  case 1
  then show ?case by simp
next
  case (2 x)
  then show ?case by (simp add: split_nl_single)
next
  case (3 x y ys)
  then show ?case by (simp add: split_nl_line)
qed

lemma not_data_empty: "\<not> is_data_line []"
  by (simp add: is_data_line_def startsWith_def)

lemma data_lines_join:
  assumes "\<forall>l\<in>set ls. CHR 0x0A \<notin> set l"
  shows "filter is_data_line (split_nl (join_with [CHR 0x0A] ls)) = filter is_data_line ls"
proof (cases "ls = []")
  case True
  then show ?thesis by (simp add: not_data_empty)
next
  case False
  with assms show ?thesis by (simp add: split_nl_join)
qed

lemma split_event: "CHR 0x0A \<notin> set l \<Longrightarrow> split_nl (l @ blank_line) = [l, [], []]"
  by (simp add: blank_line_def split_nl_line)

lemma data_lines_event:
  "CHR 0x0A \<notin> set l \<Longrightarrow>
   filter is_data_line (split_nl (l @ blank_line)) = (if is_data_line l then [l] else [])"
  by (simp add: split_event not_data_empty)

lemma process_lines_append:
  "process_lines h st (xs @ ys) =
     (case process_lines h st xs of
        (None, st') \<Rightarrow> process_lines h st' ys
      | (Some m, st') \<Rightarrow> (Some m, st'))"
  by (induction xs arbitrary: st) (auto split: sum.splits)

lemma read_loop_append:
  "read_loop h st (xs @ ys) brk =
     (case read_loop h st xs None of
        (None, st') \<Rightarrow> read_loop h st' ys brk
      | (Some m, st') \<Rightarrow> (Some m, st'))"
  by (induction xs arbitrary: st) (auto split: prod.splits option.splits)

lemma lines_generating:
  "process_lines (browser r) st [sse generating_text]
     = (None, st\<lparr> loadingStatus := ''Generating marketing content...'' \<rparr>)"
  by (simp add: sse_simps process_line_def browser_simps parse_generating get_prop_def
      apply_status_def)

lemma read_generating:
  "read_loop (browser r) st [sse generating_text @ blank_line] None
     = (None, st\<lparr> loadingStatus := ''Generating marketing content...'' \<rparr>)"
  by (simp add: process_chunk_def data_lines_event no_newline sse_simps
      process_line_def browser_simps parse_generating get_prop_def apply_status_def)

lemma read_complete:
  "read_loop (browser r) st [sse complete_text @ blank_line] None
     = (None, st\<lparr> content := ideas, loadingStatus := [] \<rparr>)"
  by (simp add: process_chunk_def data_lines_event no_newline sse_simps
      process_line_def browser_simps parse_complete get_prop_def apply_status_def)

text \<open>
  What the loop does skip. A line that does not begin with \<^verbatim>\<open>data: \<close> is ignored: a
  chunk gives the same result with and without it. A line whose text \<^verbatim>\<open>JSON.parse\<close>
  rejects with the message \<^verbatim>\<open>Unexpected end of JSON input\<close> is skipped: the state is
  unchanged, the loop goes on with the next line, and a chunk that holds only such a line
  lets the read loop go on with the next chunk.
\<close>

lemma stream_skips:
  "((\<forall>x\<in>set (ls1 @ l # ls2). CHR 0x0A \<notin> set x) \<and> \<not> is_data_line l \<longrightarrow>
      process_chunk h st (join_with [CHR 0x0A] (ls1 @ l # ls2))
        = process_chunk h st (join_with [CHR 0x0A] (ls1 @ ls2))) \<and>
   (json_parse h (drop 6 line) = Inl unexpected_end \<longrightarrow>
      process_line h st line = Inr st \<and>
      process_lines h st (line # rest) = process_lines h st rest) \<and>
   (filter is_data_line (split_nl c) = [line] \<and> json_parse h (drop 6 line) = Inl unexpected_end \<longrightarrow>
      read_loop h st (c # cs) brk = read_loop h st cs brk)"
proof -
  have 1: "process_chunk h st (join_with [CHR 0x0A] (ls1 @ l # ls2))
        = process_chunk h st (join_with [CHR 0x0A] (ls1 @ ls2))"
    if a: "(\<forall>x\<in>set (ls1 @ l # ls2). CHR 0x0A \<notin> set x) \<and> \<not> is_data_line l"
  proof -
    from a have "filter is_data_line (split_nl (join_with [CHR 0x0A] (ls1 @ l # ls2)))
        = filter is_data_line (ls1 @ l # ls2)"
      using data_lines_join by blast
    moreover from a have "filter is_data_line (split_nl (join_with [CHR 0x0A] (ls1 @ ls2)))
        = filter is_data_line (ls1 @ ls2)"
      using data_lines_join [of "ls1 @ ls2"] by simp
    ultimately show ?thesis
      using a by (simp add: process_chunk_def)
  qed
  have 2: "process_line h st line = Inr st \<and>
      process_lines h st (line # rest) = process_lines h st rest"
    if "json_parse h (drop 6 line) = Inl unexpected_end"
    using that by (simp add: process_line_skip)
  have 3: "read_loop h st (c # cs) brk = read_loop h st cs brk"
    if "filter is_data_line (split_nl c) = [line] \<and> json_parse h (drop 6 line) = Inl unexpected_end"
    using that by (simp add: process_chunk_def process_line_skip)
  from 1 2 3 show ?thesis by blast
qed

lemma stream_skips_example:
  "process_chunk (browser complete_reply) initial_app
       (join_with [CHR 0x0A] ([sse generating_text] @ '': keep-alive'' # [[]]))
     = process_chunk (browser complete_reply) initial_app
       (join_with [CHR 0x0A] ([sse generating_text] @ [[]])) \<and>
   process_line (browser complete_reply) initial_app (sse cut_after_colon_text)
     = Inr initial_app \<and>
   read_loop (browser complete_reply) initial_app
       [sse cut_after_colon_text, sse generating_text @ blank_line] None
     = (None, initial_app\<lparr> loadingStatus := ''Generating marketing content...'' \<rparr>)"
proof -
  let ?B = "browser complete_reply"
  have nl: "\<forall>x\<in>set ([sse generating_text] @ '': keep-alive'' # [[]]). CHR 0x0A \<notin> set x"
    by (simp add: no_newline)
  have nd: "\<not> is_data_line '': keep-alive''"
    by (simp add: is_data_line_def startsWith_def)
  have p: "json_parse ?B (drop 6 (sse cut_after_colon_text)) = Inl unexpected_end"
    by (simp add: browser_simps sse_simps parse_cut_after_colon)
  have f: "filter is_data_line (split_nl (sse cut_after_colon_text)) = [sse cut_after_colon_text]"
    by (simp add: split_nl_single no_newline sse_simps)
  note t = stream_skips [of "[sse generating_text]" "'': keep-alive''" "[[]]" ?B
      initial_app "sse cut_after_colon_text" "[]" "sse cut_after_colon_text"
      "[sse generating_text @ blank_line]" None]
  from t nl nd p f read_generating [of complete_reply initial_app] show ?thesis
    by simp
qed

text \<open>
  C9. The claim is that a line without the \<^verbatim>\<open>data: \<close> prefix is ignored, that a parse
  failure with the message \<^verbatim>\<open>Unexpected end of JSON input\<close> is skipped, and that chunk
  boundaries alone therefore never produce an error. The inner \<^verbatim>\<open>catch\<close> is there for
  events cut by a chunk boundary, but it knows one message only and nothing joins the two
  halves of a cut line. The event \<^verbatim>\<open>data: {"status":"generating"}\<close> in one chunk sets the
  loading status and leaves no error; cut inside the string, its head is a \<^verbatim>\<open>data: \<close>
  line that \<^verbatim>\<open>JSON.parse\<close> rejects with another message, the \<^verbatim>\<open>catch\<close> throws it on,
  and the request ends with that message as its error. The \<^verbatim>\<open>complete\<close> event cut after
  a colon is skipped without an error, and its content is never shown.
\<close>

theorem split_event_error:
  "sse cut_in_string_text @ (cut_rest_text @ blank_line) = sse generating_text @ blank_line \<and>
   settle (read_loop (browser complete_reply) initial_app
       [sse generating_text @ blank_line] None)
     = initial_app \<and>
   settle (read_loop (browser complete_reply) initial_app
       [sse cut_in_string_text, cut_rest_text @ blank_line] None)
     = initial_app\<lparr> error := Some ''Unterminated string in JSON at position 14'' \<rparr> \<and>
   sse complete_cut_text @ (complete_rest_text @ blank_line) = sse complete_text @ blank_line \<and>
   settle (read_loop (browser complete_reply) initial_app
       [sse complete_text @ blank_line] None)
     = initial_app\<lparr> content := ideas \<rparr> \<and>
   settle (read_loop (browser complete_reply) initial_app
       [sse complete_cut_text, complete_rest_text @ blank_line] None)
     = initial_app"
proof -
  let ?B = "browser complete_reply"
  have a: "sse cut_in_string_text @ (cut_rest_text @ blank_line) = sse generating_text @ blank_line"
    by (simp add: sse_def cut_in_string_text_def cut_rest_text_def generating_text_def)
  have b: "sse complete_cut_text @ (complete_rest_text @ blank_line) = sse complete_text @ blank_line"
    by (simp add: sse_def complete_cut_text_def complete_rest_text_def complete_text_def)
  have c: "read_loop ?B initial_app [sse cut_in_string_text, cut_rest_text @ blank_line] None
      = (Some ''Unterminated string in JSON at position 14'', initial_app)"
    by (simp add: process_chunk_def split_nl_single no_newline sse_simps
        process_line_def browser_simps parse_cut_in_string rethrow_def unexpected_end_def)
  have d: "read_loop ?B initial_app [sse complete_cut_text, complete_rest_text @ blank_line] None
      = (None, initial_app)"
    by (simp add: process_chunk_def split_nl_single data_lines_event no_newline sse_simps
        not_data_rest process_line_skip browser_simps parse_complete_cut)
  have s1: "settle (read_loop ?B initial_app [sse generating_text @ blank_line] None)
      = initial_app\<lparr> loadingStatus := [], loading := False \<rparr>"
    unfolding read_generating by (simp add: settle_def)
  have s2: "settle (read_loop ?B initial_app [sse cut_in_string_text, cut_rest_text @ blank_line] None)
      = initial_app\<lparr> error := Some ''Unterminated string in JSON at position 14'',
          loading := False, loadingStatus := [] \<rparr>"
    unfolding c by (simp add: settle_def)
  have s3: "settle (read_loop ?B initial_app [sse complete_text @ blank_line] None)
      = initial_app\<lparr> content := ideas, loadingStatus := [], loading := False \<rparr>"
    unfolding read_complete by (simp add: settle_def)
  have s4: "settle (read_loop ?B initial_app
        [sse complete_cut_text, complete_rest_text @ blank_line] None)
      = initial_app\<lparr> loading := False, loadingStatus := [] \<rparr>"
    unfolding d by (simp add: settle_def)
  show ?thesis
    unfolding s1 s2 s3 s4 by (simp add: a b initial_app_def)
qed

section \<open>The generate action\<close>

lemma generate_request_started:
  "generate_request h (st\<lparr> loading := a, loadingStatus := b, error := c \<rparr>) = generate_request h st"
  by (simp add: generate_request_def)

lemma handleGenerate_requests:
  "fst (handleGenerate h st) =
     (if truthy (summary st) \<and> apiKey (settings st) \<noteq> [] then [generate_request h st] else [])"
  by (simp add: handleGenerate_def generate_request_started Let_def)

lemma generate_request_body:
  "body (generate_request h st) = JsonBody (JObj
     (AList.update ''model'' (JStr (model (settings st)))
       (AList.update ''api_key'' (JStr (apiKey (settings st))) (own_props (summary st)))))"
  by (simp add: generate_request_def)

lemma handleGenerate_stream:
  assumes "truthy (summary app)" "apiKey (settings app) \<noteq> []"
    "fetch h (generate_request h app) = Inr r" "ok r"
  shows "snd (handleGenerate h app)
    = settle (read_loop h
        (app\<lparr> loading := True, loadingStatus := ''Connecting to AI...'', error := None \<rparr>)
        (chunks r) (broken r))"
  using assms
  by (simp add: handleGenerate_def Let_def generate_try_def generate_request_started)

text \<open>The settings that a save hands to the parent are the ones the request is built from.\<close>

lemma saved_settings_reach_app:
  "settings (handleSettingsChange (snd (snd (handleSave c store))) st)
     = \<lparr> apiKey = apiKey c, model = model c \<rparr>"
  by (simp add: handleSettingsChange_def handleSave_def)

text \<open>A stream that runs to its \<^verbatim>\<open>complete\<close> event leaves the content and no error.\<close>

lemma generate_complete:
  "handleGenerate (browser complete_reply) loaded_app
     = ([generate_request (browser complete_reply) loaded_app], loaded_app\<lparr> content := ideas \<rparr>)"
proof -
  let ?B = "browser complete_reply"
  let ?begun = "loaded_app\<lparr> loading := True, loadingStatus := ''Connecting to AI...'', error := None \<rparr>"
  have "read_loop ?B ?begun ([sse generating_text @ blank_line] @ [sse complete_text @ blank_line]) None
      = (None, ?begun\<lparr> loadingStatus := ''Generating marketing content...'', content := ideas,
           loadingStatus := [] \<rparr>)"
    unfolding read_loop_append read_generating by (simp only: prod.case option.case read_complete)
  then have "settle (read_loop ?B ?begun (chunks complete_reply) (broken complete_reply))
      = loaded_app\<lparr> content := ideas \<rparr>"
    by (simp add: complete_reply_def reply_simps settle_def loaded_app_def initial_app_def
        del: read_loop.simps)
  moreover have "snd (handleGenerate ?B loaded_app)
      = settle (read_loop ?B ?begun (chunks complete_reply) (broken complete_reply))"
    by (rule handleGenerate_stream)
      (simp_all add: loaded_app_simps summary_value_def browser_simps complete_reply_def
        reply_simps)
  moreover have "fst (handleGenerate ?B loaded_app) = [generate_request ?B loaded_app]"
    by (simp add: handleGenerate_requests loaded_app_simps summary_value_def)
  ultimately show ?thesis
    by (simp add: prod_eq_iff)
qed

text \<open>
  C4. Every request that \<^verbatim>\<open>handleGenerate\<close> issues goes to \<^verbatim>\<open>/generate-content-stream\<close>
  and its body is an object whose properties are those of the current summary, with
  \<^verbatim>\<open>api_key\<close> and \<^verbatim>\<open>model\<close> set to the two values of the settings the component
  reported: the keys are the summary's keys and these two, no other, and none twice.
\<close>

theorem request_body_fields:
  assumes "r \<in> set (fst (handleGenerate h st))"
  shows "url r = api_base h @ ''/generate-content-stream'' \<and>
    (\<exists>ps. body r = JsonBody (JObj ps) \<and>
       map_of ps = (map_of (own_props (summary st)))
         (''api_key'' \<mapsto> JStr (apiKey (settings st)), ''model'' \<mapsto> JStr (model (settings st))) \<and>
       set (map fst ps) = set (map fst (own_props (summary st))) \<union> {''api_key'', ''model''} \<and>
       (distinct (map fst (own_props (summary st))) \<longrightarrow> distinct (map fst ps)))"
proof -
  from assms have r: "r = generate_request h st"
    by (simp add: handleGenerate_requests split: if_splits)
  let ?ps = "AList.update ''model'' (JStr (model (settings st)))
       (AList.update ''api_key'' (JStr (apiKey (settings st))) (own_props (summary st)))"
  have "body r = JsonBody (JObj ?ps)"
    by (simp add: r generate_request_body)
  moreover have "map_of ?ps = (map_of (own_props (summary st)))
         (''api_key'' \<mapsto> JStr (apiKey (settings st)), ''model'' \<mapsto> JStr (model (settings st)))"
    by (simp add: update_conv')
  moreover have "set (map fst ?ps) = set (map fst (own_props (summary st))) \<union> {''api_key'', ''model''}"
    by (auto simp: update_keys)
  moreover have "distinct (map fst (own_props (summary st))) \<longrightarrow> distinct (map fst ?ps)"
    by (simp add: distinct_update)
  moreover have "url r = api_base h @ ''/generate-content-stream''"
    by (simp add: r generate_request_def)
  ultimately show ?thesis by blast
qed

theorem request_body_fields_witness:
  "generate_request (browser complete_reply) loaded_app
     \<in> set (fst (handleGenerate (browser complete_reply) loaded_app)) \<and>
   url (generate_request (browser complete_reply) loaded_app)
     = ''http://localhost:8000/generate-content-stream'' \<and>
   (\<exists>ps. body (generate_request (browser complete_reply) loaded_app) = JsonBody (JObj ps) \<and>
      map_of ps ''api_key'' = Some (JStr ''sk-test'') \<and>
      map_of ps ''model'' = Some (JStr default_model) \<and>
      map_of ps ''top_items'' = Some (JArr []) \<and>
      map_of ps ''prompt'' = None \<and>
      set (map fst ps) = {''date_range'', ''top_items'', ''api_key'', ''model''})"
proof -
  let ?B = "browser complete_reply"
  have m: "generate_request ?B loaded_app \<in> set (fst (handleGenerate ?B loaded_app))"
    by (simp add: handleGenerate_requests loaded_app_simps summary_value_def)
  from request_body_fields [OF m] obtain ps where
    u: "url (generate_request ?B loaded_app) = api_base ?B @ ''/generate-content-stream''" and
    b: "body (generate_request ?B loaded_app) = JsonBody (JObj ps)" and
    f: "map_of ps = (map_of (own_props (summary loaded_app)))
         (''api_key'' \<mapsto> JStr (apiKey (settings loaded_app)),
          ''model'' \<mapsto> JStr (model (settings loaded_app)))" and
    k: "set (map fst ps) = set (map fst (own_props (summary loaded_app))) \<union> {''api_key'', ''model''}"
    by blast
  from f have "map_of ps ''api_key'' = Some (JStr ''sk-test'')"
    "map_of ps ''model'' = Some (JStr default_model)"
    "map_of ps ''top_items'' = Some (JArr [])"
    "map_of ps ''prompt'' = None"
    by (simp_all add: loaded_app_simps summary_value_def)
  moreover from k have "set (map fst ps) = {''date_range'', ''top_items'', ''api_key'', ''model''}"
    by (auto simp: loaded_app_simps summary_value_def)
  ultimately show ?thesis
    using m u b by (simp add: browser_simps)
qed

text \<open>
  C8, as amended. With no summary loaded, or with the empty API key, \<^verbatim>\<open>handleGenerate\<close>
  sends no request. With no summary it leaves the state as it was, whatever the key;
  with a summary and the empty key it sets the error message that asks for the key and
  nothing else. Summary and content are unchanged whenever the key is missing.
\<close>

theorem generate_guards:
  "(\<not> truthy (summary st) \<or> apiKey (settings st) = [] \<longrightarrow> fst (handleGenerate h st) = []) \<and>
   (\<not> truthy (summary st) \<longrightarrow> snd (handleGenerate h st) = st) \<and>
   (truthy (summary st) \<and> apiKey (settings st) = [] \<longrightarrow>
      snd (handleGenerate h st)
        = st\<lparr> error := Some ''Please configure your OpenAI API key in settings first.'' \<rparr>) \<and>
   (apiKey (settings st) = [] \<longrightarrow>
      summary (snd (handleGenerate h st)) = summary st \<and>
      content (snd (handleGenerate h st)) = content st)"
  by (simp add: handleGenerate_def)

theorem generate_guards_witness:
  "fst (handleGenerate (browser complete_reply) initial_app) = [] \<and>
   snd (handleGenerate (browser complete_reply) initial_app) = initial_app \<and>
   fst (handleGenerate (browser complete_reply) (initial_app\<lparr> summary := summary_value \<rparr>)) = [] \<and>
   snd (handleGenerate (browser complete_reply) (initial_app\<lparr> summary := summary_value \<rparr>))
     = initial_app\<lparr> summary := summary_value,
         error := Some ''Please configure your OpenAI API key in settings first.'' \<rparr> \<and>
   content (snd (handleGenerate (browser complete_reply)
     (initial_app\<lparr> summary := summary_value \<rparr>))) = JNull"
proof -
  let ?B = "browser complete_reply"
  have a: "\<not> truthy (summary initial_app)" "apiKey (settings initial_app) = []"
    by (simp_all add: initial_app_def)
  have b: "truthy (summary (initial_app\<lparr> summary := summary_value \<rparr>))"
    "apiKey (settings (initial_app\<lparr> summary := summary_value \<rparr>)) = []"
    by (simp_all add: initial_app_def summary_value_def)
  have c: "content (initial_app\<lparr> summary := summary_value \<rparr>) = JNull"
    by (simp add: initial_app_def)
  from generate_guards [of initial_app ?B]
    generate_guards [of "initial_app\<lparr> summary := summary_value \<rparr>" ?B] a b c
  show ?thesis by simp
qed

text \<open>
  C8 as stated fails where neither a summary nor a key is there, as when the app has just
  started: the summary guard returns first, and no message is set.
\<close>

theorem no_summary_no_key_counterexample:
  "\<not> truthy (summary initial_app) \<and>
   apiKey (settings initial_app) = [] \<and>
   handleGenerate (browser complete_reply) initial_app = ([], initial_app) \<and>
   error initial_app = None"
  by (simp add: handleGenerate_def initial_app_def)

text \<open>
  C2, as amended. An event whose \<^verbatim>\<open>error\<close> field is a string that is not empty and is
  not \<^verbatim>\<open>Unexpected end of JSON input\<close>, reached after the chunks \<open>cs0\<close> and the lines
  \<open>pre\<close> of its own chunk went through, throws that string: no later line and no later
  chunk is processed, the state of that moment (its content included) is kept, and the
  handler ends with exactly that string as the displayed error.
\<close>

theorem error_event_terminates:
  assumes "json_parse h (drop 6 line) = Inr d" "own_prop d ''error'' = JStr e" "e \<noteq> []"
    "e \<noteq> unexpected_end"
    and "read_loop h st0 cs0 None = (None, st)"
    and "filter is_data_line (split_nl c) = pre @ line # rest"
    and "process_lines h st pre = (None, st')"
  shows "process_line h st' line = Inl e \<and>
    read_loop h st0 (cs0 @ c # cs) brk = (Some e, st') \<and>
    settle (read_loop h st0 (cs0 @ c # cs) brk)
      = st'\<lparr> error := Some e, loading := False, loadingStatus := [] \<rparr> \<and>
    (truthy (summary app) \<and> apiKey (settings app) \<noteq> [] \<and>
     fetch h (generate_request h app) = Inr r \<and> ok r \<and> chunks r = cs0 @ c # cs \<and>
     st0 = app\<lparr> loading := True, loadingStatus := ''Connecting to AI...'', error := None \<rparr> \<longrightarrow>
       snd (handleGenerate h app) = st'\<lparr> error := Some e, loading := False, loadingStatus := [] \<rparr> \<and>
       content (snd (handleGenerate h app)) = content st')"
proof -
  have l: "process_line h st' line = Inl e"
    using assms(1-4) by (rule process_line_error)
  then have "process_lines h st (pre @ line # rest) = (Some e, st')"
    using assms(7) by (simp add: process_lines_append)
  then have "process_chunk h st c = (Some e, st')"
    using assms(6) by (simp add: process_chunk_def)
  then have r: "read_loop h st0 (cs0 @ c # cs) b = (Some e, st')" for b
    using assms(5) by (simp add: read_loop_append)
  then have s: "settle (read_loop h st0 (cs0 @ c # cs) b)
      = st'\<lparr> error := Some e, loading := False, loadingStatus := [] \<rparr>" for b
    by (simp add: settle_def)
  have "snd (handleGenerate h app) = st'\<lparr> error := Some e, loading := False, loadingStatus := [] \<rparr>"
    if "truthy (summary app) \<and> apiKey (settings app) \<noteq> [] \<and>
     fetch h (generate_request h app) = Inr r \<and> ok r \<and> chunks r = cs0 @ c # cs \<and>
     st0 = app\<lparr> loading := True, loadingStatus := ''Connecting to AI...'', error := None \<rparr>"
    using that s [of "broken r"] by (simp add: handleGenerate_stream)
  with l r s show ?thesis by simp
qed

theorem error_event_terminates_witness:
  "process_line (browser failing_reply) initial_app (sse error_text) = Inl ''Invalid API key'' \<and>
   snd (handleGenerate (browser failing_reply) loaded_app)
     = loaded_app\<lparr> content := ideas, error := Some ''Invalid API key'' \<rparr>"
proof -
  let ?B = "browser failing_reply"
  let ?begun = "loaded_app\<lparr> loading := True, loadingStatus := ''Connecting to AI...'', error := None \<rparr>"
  let ?mid = "?begun\<lparr> content := ideas, loadingStatus := [] \<rparr>"
  let ?later = "?mid\<lparr> loadingStatus := ''Generating marketing content...'' \<rparr>"
  let ?c = "join_with [CHR 0x0A] [sse generating_text, sse error_text, sse complete_text]"
  have p: "json_parse ?B (drop 6 (sse error_text)) = Inr (JObj [(''error'', JStr ''Invalid API key'')])"
    by (simp add: browser_simps sse_simps parse_error)
  have e: "own_prop (JObj [(''error'', JStr ''Invalid API key'')]) ''error'' = JStr ''Invalid API key''"
    by simp
  have n: "''Invalid API key'' \<noteq> []" "''Invalid API key'' \<noteq> unexpected_end"
    by (simp_all add: unexpected_end_def)
  have r0: "read_loop ?B ?begun [sse complete_text @ blank_line] None = (None, ?mid)"
    by (rule read_complete)
  have f: "filter is_data_line (split_nl ?c) = [sse generating_text] @ sse error_text # [sse complete_text]"
    using data_lines_join [of "[sse generating_text, sse error_text, sse complete_text]"]
    by (simp add: no_newline sse_simps)
  have g: "process_lines ?B ?mid [sse generating_text] = (None, ?later)"
    by (rule lines_generating)
  have a: "truthy (summary loaded_app) \<and> apiKey (settings loaded_app) \<noteq> [] \<and>
     fetch ?B (generate_request ?B loaded_app) = Inr failing_reply \<and> ok failing_reply \<and>
     chunks failing_reply = [sse complete_text @ blank_line] @ ?c # [sse complete_text @ blank_line] \<and>
     ?begun = loaded_app\<lparr> loading := True, loadingStatus := ''Connecting to AI...'', error := None \<rparr>"
    by (simp add: loaded_app_simps summary_value_def browser_simps failing_reply_def reply_simps)
  have i: "process_line ?B initial_app (sse error_text) = Inl ''Invalid API key''"
    using p e n by (rule process_line_error)
  have z: "?later\<lparr> error := Some ''Invalid API key'', loading := False, loadingStatus := [] \<rparr>
      = loaded_app\<lparr> content := ideas, error := Some ''Invalid API key'' \<rparr>"
    by (simp add: loaded_app_def initial_app_def)
  from error_event_terminates [OF p e n r0 f g, where cs = "[sse complete_text @ blank_line]"
      and app = loaded_app and r = failing_reply] a
  have "snd (handleGenerate ?B loaded_app)
      = ?later\<lparr> error := Some ''Invalid API key'', loading := False, loadingStatus := [] \<rparr>"
    by blast
  with i z show ?thesis by simp
qed

text \<open>
  C2 as stated fails where the \<^verbatim>\<open>error\<close> field is there and falsy: the test is
  \<^verbatim>\<open>if (data.error)\<close>. With the empty string nothing is thrown, no error is displayed,
  the status chain runs, and the content is set from that very event.
\<close>

theorem empty_error_counterexample:
  "json_parse (browser complete_reply) (drop 6 (sse empty_error_text))
     = Inr (JObj [(''error'', JStr []), (''status'', JStr ''complete''), (''data'', ideas)]) \<and>
   process_line (browser complete_reply) initial_app (sse empty_error_text)
     = Inr (initial_app\<lparr> content := ideas, loadingStatus := [] \<rparr>) \<and>
   settle (read_loop (browser complete_reply) initial_app [sse empty_error_text @ blank_line] None)
     = initial_app\<lparr> content := ideas \<rparr>"
proof -
  let ?B = "browser complete_reply"
  have p: "process_line ?B initial_app (sse empty_error_text)
     = Inr (initial_app\<lparr> content := ideas, loadingStatus := [] \<rparr>)"
    by (simp add: browser_simps sse_simps parse_empty_error process_line_def get_prop_def
        apply_status_def)
  then have "read_loop ?B initial_app [sse empty_error_text @ blank_line] None
      = (None, initial_app\<lparr> content := ideas, loadingStatus := [] \<rparr>)"
    by (simp add: process_chunk_def data_lines_event no_newline sse_simps)
  with p show ?thesis
    by (simp add: browser_simps sse_simps parse_empty_error settle_def initial_app_def)
qed

section \<open>The upload\<close>

lemma upload_error_detail:
  assumes "response_json h r = Inr d" "own_prop d ''detail'' = JStr s" "s \<noteq> []"
  shows "upload_error_message h r = s"
proof -
  from assms(2) have "d \<noteq> JNull \<and> d \<noteq> JUndefined"
    using own_prop_defined [of d "''detail''"] by simp
  with assms show ?thesis
    by (simp add: upload_error_message_def get_prop_def js_or_def thrown_message_def)
qed

text \<open>
  C3, as amended. A response that is not ok, with a JSON body whose \<^verbatim>\<open>detail\<close> is a
  non-empty string, displays that string as the error and sets the summary to
  \<^verbatim>\<open>null\<close>; an ok response with a non-empty body that parses stores the parsed body as
  the summary and leaves no error.
\<close>

theorem upload_outcomes:
  "(fetch h (upload_request h f) = Inr r \<and> \<not> ok r \<and> response_json h r = Inr d \<and>
      own_prop d ''detail'' = JStr s \<and> s \<noteq> [] \<longrightarrow>
    error (snd (handleUpload h st f)) = Some s \<and> summary (snd (handleUpload h st f)) = JNull) \<and>
   (fetch h (upload_request h f) = Inr r \<and> ok r \<and> body_text r = Inr t \<and> t \<noteq> [] \<and>
      json_parse h t = Inr d \<longrightarrow>
    summary (snd (handleUpload h st f)) = d \<and> error (snd (handleUpload h st f)) = None)"
proof -
  have 1: "error (snd (handleUpload h st f)) = Some s \<and> summary (snd (handleUpload h st f)) = JNull"
    if a: "fetch h (upload_request h f) = Inr r \<and> \<not> ok r \<and> response_json h r = Inr d \<and>
      own_prop d ''detail'' = JStr s \<and> s \<noteq> []"
  proof -
    from a have "upload_error_message h r = s"
      using upload_error_detail by blast
    with a show ?thesis
      by (simp add: handleUpload_def upload_try_def Let_def)
  qed
  have 2: "summary (snd (handleUpload h st f)) = d \<and> error (snd (handleUpload h st f)) = None"
    if "fetch h (upload_request h f) = Inr r \<and> ok r \<and> body_text r = Inr t \<and> t \<noteq> [] \<and>
      json_parse h t = Inr d"
    using that by (simp add: handleUpload_def upload_try_def Let_def)
  from 1 2 show ?thesis by blast
qed

theorem upload_outcomes_witness:
  "error (snd (handleUpload (browser (reply False 400 [detail_text])) initial_app menu_csv))
     = Some ''Unsupported CSV format'' \<and>
   summary (snd (handleUpload (browser (reply False 400 [detail_text])) initial_app menu_csv))
     = JNull \<and>
   summary (snd (handleUpload (browser (reply True 200 [summary_text])) initial_app menu_csv))
     = summary_value \<and>
   error (snd (handleUpload (browser (reply True 200 [summary_text])) initial_app menu_csv)) = None"
proof -
  let ?r1 = "reply False 400 [detail_text]" and ?r2 = "reply True 200 [summary_text]"
  have a: "fetch (browser ?r1) (upload_request (browser ?r1) menu_csv) = Inr ?r1 \<and> \<not> ok ?r1 \<and>
      response_json (browser ?r1) ?r1 = Inr (JObj [(''detail'', JStr ''Unsupported CSV format'')]) \<and>
      own_prop (JObj [(''detail'', JStr ''Unsupported CSV format'')]) ''detail''
        = JStr ''Unsupported CSV format'' \<and> ''Unsupported CSV format'' \<noteq> []"
    by (simp add: browser_simps reply_simps reply_json parse_detail)
  have b: "fetch (browser ?r2) (upload_request (browser ?r2) menu_csv) = Inr ?r2 \<and> ok ?r2 \<and>
      body_text ?r2 = Inr summary_text \<and> summary_text \<noteq> [] \<and>
      json_parse (browser ?r2) summary_text = Inr summary_value"
    by (simp add: browser_simps reply_simps body_text_def parse_summary)
      (simp add: summary_text_def)
  from upload_outcomes [of "browser ?r1" menu_csv ?r1
      "JObj [(''detail'', JStr ''Unsupported CSV format'')]" "''Unsupported CSV format''" initial_app]
    upload_outcomes [of "browser ?r2" menu_csv ?r2 summary_value _ initial_app summary_text]
    a b
  show ?thesis by blast
qed

text \<open>
  C3 as stated fails for the empty \<^verbatim>\<open>detail\<close> string: \<^verbatim>\<open>data.detail || errorMsg\<close>
  takes the default, and the error displayed is \<^verbatim>\<open>Failed to upload CSV\<close>.
\<close>

theorem empty_detail_counterexample:
  "response_json (browser (reply False 400 [empty_detail_text])) (reply False 400 [empty_detail_text])
     = Inr (JObj [(''detail'', JStr [])]) \<and>
   error (snd (handleUpload (browser (reply False 400 [empty_detail_text])) initial_app menu_csv))
     = Some ''Failed to upload CSV''"
  by (simp add: reply_json parse_empty_detail handleUpload_def upload_try_def Let_def
      browser_simps reply_simps upload_error_message_def get_prop_def js_or_def
      thrown_message_def)

section \<open>Settings and client-side storage\<close>

lemma stored_or_simps:
  "stored_or None d = d"
  "stored_or (Some s) d = (if s = [] then d else s)"
  by (simp_all add: stored_or_def)

lemma mount_after_save:
  "mount (fst (snd (handleSave c store)))
     = (\<lparr> apiKey = apiKey c, model = (if model c = [] then default_model else model c),
          isOpen = False, saved = False \<rparr>,
        \<lparr> apiKey = apiKey c, model = (if model c = [] then default_model else model c) \<rparr>)"
  by (simp add: mount_def handleSave_def stored_or_simps Let_def)

lemma mount_unsaved:
  "store ''openai_api_key'' = None \<Longrightarrow> store ''openai_model'' = None \<Longrightarrow>
   mount store = (\<lparr> apiKey = [], model = default_model, isOpen = False, saved = False \<rparr>,
                  \<lparr> apiKey = [], model = default_model \<rparr>)"
  by (simp add: mount_def stored_or_simps Let_def)

lemma clear_storage:
  "fst (snd (handleClear c store)) ''openai_api_key'' = None"
  "fst (snd (handleClear c store)) ''openai_model'' = None"
  by (simp_all add: handleClear_def)

text \<open>
  C7, as amended. After a save, a remount shows the saved key, and the saved model when
  it is not the empty string (an empty saved model comes back as the default); the
  settings handed to the parent are the same. With nothing saved, a mount shows the empty
  key and the default model. Clearing sets the inputs, the settings handed to the parent
  and what the next mount shows to exactly those defaults.
\<close>

theorem settings_round_trip:
  "apiKey (fst (mount (fst (snd (handleSave c store))))) = apiKey c \<and>
   (model c \<noteq> [] \<longrightarrow> model (fst (mount (fst (snd (handleSave c store))))) = model c) \<and>
   (model c = [] \<longrightarrow> model (fst (mount (fst (snd (handleSave c store))))) = default_model) \<and>
   snd (mount (fst (snd (handleSave c store))))
     = \<lparr> apiKey = apiKey (fst (mount (fst (snd (handleSave c store))))),
         model = model (fst (mount (fst (snd (handleSave c store))))) \<rparr> \<and>
   (store ''openai_api_key'' = None \<and> store ''openai_model'' = None \<longrightarrow>
      apiKey (fst (mount store)) = [] \<and> model (fst (mount store)) = default_model \<and>
      snd (mount store) = \<lparr> apiKey = [], model = default_model \<rparr>) \<and>
   apiKey (fst (handleClear c store)) = [] \<and>
   model (fst (handleClear c store)) = default_model \<and>
   snd (snd (handleClear c store)) = \<lparr> apiKey = [], model = default_model \<rparr> \<and>
   apiKey (fst (mount (fst (snd (handleClear c store))))) = [] \<and>
   model (fst (mount (fst (snd (handleClear c store))))) = default_model \<and>
   default_model = ''gpt-5-mini-2025-08-07''"
proof -
  have "mount (fst (snd (handleClear c store)))
      = (\<lparr> apiKey = [], model = default_model, isOpen = False, saved = False \<rparr>,
         \<lparr> apiKey = [], model = default_model \<rparr>)"
    by (rule mount_unsaved) (rule clear_storage)+
  moreover have "apiKey (fst (handleClear c store)) = [] \<and>
      model (fst (handleClear c store)) = default_model \<and>
      snd (snd (handleClear c store)) = \<lparr> apiKey = [], model = default_model \<rparr>"
    by (simp add: handleClear_def)
  ultimately show ?thesis
    by (simp add: mount_after_save mount_unsaved default_model_def)
qed

theorem settings_round_trip_witness:
  "apiKey (fst (mount (fst (snd (handleSave pasted_settings Map.empty))))) = ''sk-test'' \<and>
   model (fst (mount (fst (snd (handleSave pasted_settings Map.empty))))) = ''gpt-4o-mini'' \<and>
   model (fst (mount (fst (snd (handleSave blanked_model Map.empty))))) = ''gpt-5-mini-2025-08-07'' \<and>
   snd (mount Map.empty) = \<lparr> apiKey = [], model = ''gpt-5-mini-2025-08-07'' \<rparr> \<and>
   snd (mount (fst (snd (handleClear pasted_settings
       (fst (snd (handleSave pasted_settings Map.empty)))))))
     = \<lparr> apiKey = [], model = ''gpt-5-mini-2025-08-07'' \<rparr>"
proof -
  have a: "apiKey pasted_settings = ''sk-test''" "model pasted_settings = ''gpt-4o-mini''"
    "model blanked_model = []"
    by (simp_all add: pasted_settings_def blanked_model_def)
  have e: "(Map.empty :: storage) ''openai_api_key'' = None \<and>
      (Map.empty :: storage) ''openai_model'' = None"
    by simp
  have m: "snd (mount (fst (snd (handleClear pasted_settings
       (fst (snd (handleSave pasted_settings Map.empty)))))))
     = \<lparr> apiKey = [], model = default_model \<rparr>"
    by (simp add: mount_unsaved clear_storage)
  from settings_round_trip [of pasted_settings Map.empty]
    settings_round_trip [of blanked_model Map.empty] a e m
  show ?thesis by simp
qed

text \<open>
  C7 as stated fails for the model: saved as the empty string, it is stored as such, and
  \<^verbatim>\<open>getItem('openai_model') || 'gpt-5-mini-2025-08-07'\<close> reads it back as the default.
\<close>

theorem blank_model_counterexample:
  "model blanked_model = [] \<and>
   model (fst (mount (fst (snd (handleSave blanked_model Map.empty))))) = ''gpt-5-mini-2025-08-07''"
  by (simp add: mount_after_save blanked_model_def default_model_def)

section \<open>The upload zone\<close>

lemma endsWith_iff: "endsWith s suf \<longleftrightarrow> (\<exists>p. s = p @ suf)"
proof
  assume "endsWith s suf"
  then have "s = take (length s - length suf) s @ suf"
    by (metis append_take_drop_id endsWith_def)
  then show "\<exists>p. s = p @ suf" ..
next
  assume "\<exists>p. s = p @ suf"
  then show "endsWith s suf"
    by (auto simp: endsWith_def)
qed

lemma uploads_select:
  "uploads (fst (handleFileSelect fo c))
     = (case fo of None \<Rightarrow> [] | Some f \<Rightarrow> if endsWith (name f) ''.csv'' then [f] else [])"
  by (simp add: handleFileSelect_def split: option.splits)

text \<open>
  C10. The file picked or dropped is handed to \<^verbatim>\<open>onUpload\<close>, once, exactly when there
  is a file and its name ends with \<^verbatim>\<open>.csv\<close>; any other selection hands over nothing.
  \<^verbatim>\<open>handleChange\<close> and \<^verbatim>\<open>handleDrop\<close> pass the first file of the list, if any.
\<close>

theorem upload_exactly_csv:
  "uploads (fst (handleFileSelect fo c))
     = (case fo of None \<Rightarrow> [] | Some f \<Rightarrow> if (\<exists>p. name f = p @ ''.csv'') then [f] else []) \<and>
   uploads (fst (handleChange fs c))
     = (case fs of [] \<Rightarrow> [] | f # rest \<Rightarrow> if (\<exists>p. name f = p @ ''.csv'') then [f] else []) \<and>
   uploads (fst (handleDrop fs c))
     = (case fs of [] \<Rightarrow> [] | f # rest \<Rightarrow> if (\<exists>p. name f = p @ ''.csv'') then [f] else [])"
  by (simp add: handleChange_def handleDrop_def first_file_def uploads_select endsWith_iff
      split: option.splits list.splits)

theorem upload_exactly_csv_witness:
  "uploads (fst (handleFileSelect (Some menu_csv) idle_upload)) = [menu_csv] \<and>
   uploads (fst (handleFileSelect (Some photo_png) idle_upload)) = [] \<and>
   uploads (fst (handleFileSelect None idle_upload)) = [] \<and>
   uploads (fst (handleChange [menu_csv, photo_png] idle_upload)) = [menu_csv] \<and>
   uploads (fst (handleDrop [photo_png, menu_csv] idle_upload)) = [] \<and>
   uploads (fst (handleDrop [] idle_upload)) = []"
proof -
  have a: "\<exists>p. name menu_csv = p @ ''.csv''"
    by (simp add: menu_csv_def)
  have b: "\<not> (\<exists>p. name photo_png = p @ ''.csv'')"
    using endsWith_iff [of "name photo_png" "''.csv''"]
    by (simp add: photo_png_def endsWith_def)
  from upload_exactly_csv [of "Some menu_csv" idle_upload "[menu_csv, photo_png]"]
    upload_exactly_csv [of "Some photo_png" idle_upload "[photo_png, menu_csv]"]
    upload_exactly_csv [of None idle_upload "[]"] a b
  show ?thesis by simp
qed

section \<open>One terminal event per request\<close>

lemma token_events_status: "filter is_terminal (token_events thr i acc ts) = []"
  by (induction ts arbitrary: i acc) auto

lemma token_events_later:
  "0 < i \<Longrightarrow> e \<in> set (token_events thr i acc ts) \<Longrightarrow> stage_rank e = 2"
  by (induction ts arbitrary: i acc) (auto split: if_splits)

lemma token_events_rank:
  "e \<in> set (token_events thr i acc ts) \<Longrightarrow> 1 \<le> stage_rank e \<and> stage_rank e \<le> 2"
proof (cases ts)
  case Nil
  then show "e \<in> set (token_events thr i acc ts) \<Longrightarrow> ?thesis" by simp
next
  case (Cons t ts')
  then show "e \<in> set (token_events thr i acc ts) \<Longrightarrow> ?thesis"
    using token_events_later [of "Suc i" e thr "acc + length t" ts']
    by (auto split: if_splits)
qed

lemma token_events_sorted: "sorted (map stage_rank (token_events thr i acc ts))"
proof (induction ts arbitrary: i acc)
  case Nil
  then show ?case by simp
next
  case (Cons t ts)
  have "\<forall>e\<in>set (token_events thr (Suc i) (acc + length t) ts). stage_rank e = 2"
    using token_events_later [of "Suc i"] by blast
  with Cons show ?case
    by (auto simp: sorted_append)
qed

text \<open>
  C6, on the server as the spec describes it. The events of a request are not empty, the
  last one is terminal, none before it is, so there is exactly one terminal event and
  nothing after it; and the events come in pipeline order (\<^verbatim>\<open>connecting\<close>,
  \<^verbatim>\<open>generating\<close>, \<^verbatim>\<open>streaming\<close>, \<^verbatim>\<open>processing\<close>, terminal).
\<close>

theorem one_terminal_event:
  fixes P :: "'c pipeline"
  shows "emit_events P u \<noteq> [] \<and>
   is_terminal (last (emit_events P u)) \<and>
   filter is_terminal (butlast (emit_events P u)) = [] \<and>
   length (filter is_terminal (emit_events P u)) = 1 \<and>
   sorted (map stage_rank (emit_events P u))"
proof -
  let ?ts = "token_events (throttle P) 0 0 (tokens u) :: 'c stream_event list"
  have r: "\<forall>e\<in>set ?ts. stage_rank e \<le> 3 \<and> stage_rank e \<le> 4"
  proof
    fix e assume "e \<in> set ?ts"
    then have "stage_rank e \<le> 2" using token_events_rank by blast
    then show "stage_rank e \<le> 3 \<and> stage_rank e \<le> 4" by simp
  qed
  show ?thesis
  proof (cases "failure u")
    case None
    with r show ?thesis
      by (cases "parse_validate P (concat (tokens u))")
        (simp_all add: emit_events_def token_events_status token_events_sorted sorted_append
          butlast_append)
  next
    case (Some k)
    with r show ?thesis
      by (simp add: emit_events_def token_events_status token_events_sorted sorted_append
          butlast_append)
  qed
qed

theorem one_terminal_event_witness:
  "emit_events demo_pipeline demo_call
     = [StatusEvent Connecting, StatusEvent Generating, StatusEvent (Streaming 3),
        StatusEvent Processing, DataEvent ''{}!''] \<and>
   is_terminal (last (emit_events demo_pipeline demo_call)) \<and>
   length (filter is_terminal (emit_events demo_pipeline demo_call)) = 1"
  using one_terminal_event [of demo_pipeline demo_call]
  by (simp add: emit_events_def demo_pipeline_def demo_call_def)

end
